theory Spec2Isabelle
  imports Complex_Main "HOL-Library.Log_Nat"
begin

section \<open>Solana Risk Checker backend: data model\<close>

text \<open>
  The service is one Python module, \<^verbatim>\<open>app/main.py\<close>. Numbers are rationals. The clock
  \<^verbatim>\<open>time.time()\<close> and the two features that are quotients are computed exactly; the
  score of \<^verbatim>\<open>/score\<close> is computed in binary64 arithmetic, as Python floats are, since
  its rounding to two decimals depends on the last bit. The clock, the upstream HTTP
  reply, the base64 decoder and the simulation RPC are inputs of the model, so every
  function below is a function of what the Python code reads.
\<close>

subsection \<open>JSON values of a request body\<close>

text \<open>
  FastAPI hands the handlers \<^verbatim>\<open>body: dict\<close>: any JSON object. A JSON number is a
  Python \<open>int\<close> or \<open>float\<close>; both are a \<open>rat\<close> here.
\<close>

datatype json =
    JNull
  | JBool bool
  | JNum rat
  | JStr string
  | JArr "json list"
  | JObj "(string \<times> json) list"

datatype py_error = TypeError

text \<open>Python truthiness, as tested by \<^verbatim>\<open>if not x\<close>.\<close>

fun truthy :: "json \<Rightarrow> bool" where
  "truthy JNull = False"
| "truthy (JBool b) = b"
| "truthy (JNum q) = (q \<noteq> 0)"
| "truthy (JStr s) = (s \<noteq> [])"
| "truthy (JArr xs) = (xs \<noteq> [])"
| "truthy (JObj kvs) = (kvs \<noteq> [])"

text \<open>\<^verbatim>\<open>body.get(k)\<close>: the value under the key, \<^verbatim>\<open>None\<close> when the key is absent.\<close>

definition dict_get :: "(string \<times> json) list \<Rightarrow> string \<Rightarrow> json" where
  "dict_get body k = (case map_of body k of None \<Rightarrow> JNull | Some v \<Rightarrow> v)"

text \<open>
  Keys of the \<^verbatim>\<open>CACHE\<close> dict. Python hashes \<^verbatim>\<open>True\<close>, \<^verbatim>\<open>1\<close> and \<^verbatim>\<open>1.0\<close> to the
  same key; lists and dicts are unhashable, and \<^verbatim>\<open>address in CACHE\<close> raises
  \<^verbatim>\<open>TypeError\<close> on them.
\<close>

datatype hkey = KNone | KNum rat | KStr string

fun py_hash :: "json \<Rightarrow> py_error + hkey" where
  "py_hash JNull = Inr KNone"
| "py_hash (JBool b) = Inr (KNum (if b then 1 else 0))"
| "py_hash (JNum q) = Inr (KNum q)"
| "py_hash (JStr s) = Inr (KStr s)"
| "py_hash (JArr xs) = Inl TypeError"
| "py_hash (JObj kvs) = Inl TypeError"

subsection \<open>Transaction records, cache entries, features\<close>

text \<open>
  A record of the upstream history response, with the two keys the code reads, typed as
  the history API sends them: account names are strings, timestamps numbers, and
  \<^verbatim>\<open>nativeTransfers\<close> an array of objects. A field is \<open>None\<close> when \<^verbatim>\<open>.get\<close> finds no
  value (for the accounts and the timestamp: key absent or null; for
  \<^verbatim>\<open>nativeTransfers\<close>: key absent, where \<^verbatim>\<open>.get\<close> yields \<^verbatim>\<open>[]\<close>). Replies of another
  shape (a JSON object instead of an array, a null \<^verbatim>\<open>nativeTransfers\<close>) are outside
  this type.
\<close>

record transfer =
  fromUserAccount :: "string option"
  toUserAccount :: "string option"

record tx_record =
  nativeTransfers :: "transfer list option"
  timestamp :: "rat option"

text \<open>
  \<^verbatim>\<open>CACHE[address] = {"timestamp": ..., "data": ...}\<close>; the two keys carry the prefix
  \<open>entry_\<close> since \<open>timestamp\<close> is a field of a transaction record already.
\<close>

record cache_entry =
  entry_timestamp :: rat
  entry_data :: "tx_record list"

type_synonym cache = "hkey \<rightharpoonup> cache_entry"

record features =
  tx_count :: nat
  incoming_tx_count :: nat
  outgoing_tx_count :: nat
  incoming_ratio :: rat
  recent_activity_days :: "rat option"

datatype response =
    ErrorResp string
  | ScoreResp rat string features
  | SimResp "string list" "nat option" "string option"

section \<open>Fetching transactions through the cache\<close>

text \<open>
  What the GET would answer if it is issued: \<open>Failed\<close> is every exception of
  \<^verbatim>\<open>client.get\<close>, \<^verbatim>\<open>raise_for_status\<close> and \<^verbatim>\<open>response.json\<close> (transport error, non-2xx
  status, malformed body); \<open>Succeeded d\<close> is a parsed array of records.
\<close>

datatype upstream = Failed | Succeeded "tx_record list"

text \<open>
  The cache test of line 67 and the read of line 68:
  \<^verbatim>\<open>address in CACHE and time.time() - CACHE[address]["timestamp"] < CACHE_TTL\<close>.
  \<open>CACHE_TTL\<close> is an \<^verbatim>\<open>int\<close> read from the environment.
\<close>

definition cache_lookup :: "int \<Rightarrow> cache \<Rightarrow> rat \<Rightarrow> hkey \<Rightarrow> tx_record list option" where
  "cache_lookup ttl c t k =
     (case c k of
        None \<Rightarrow> None
      | Some e \<Rightarrow> if t - entry_timestamp e < of_int ttl then Some (entry_data e) else None)"

text \<open>
  \<open>get_transactions ttl c t_check t_store u address\<close>: \<open>c\<close> is \<^verbatim>\<open>CACHE\<close> before the
  call, \<open>t_check\<close> the clock read by the cache test, \<open>t_store\<close> the clock read when
  the reply is stored. The result is the returned list, \<^verbatim>\<open>CACHE\<close> after the call and
  the number of GET requests issued.
\<close>

definition get_transactions ::
  "int \<Rightarrow> cache \<Rightarrow> rat \<Rightarrow> rat \<Rightarrow> upstream \<Rightarrow> json \<Rightarrow> py_error + (tx_record list \<times> cache \<times> nat)" where
  "get_transactions ttl c t_check t_store u address =
     (case py_hash address of
        Inl e \<Rightarrow> Inl e
      | Inr k \<Rightarrow>
          (case cache_lookup ttl c t_check k of
             Some d \<Rightarrow> Inr (d, c, 0)
           | None \<Rightarrow>
               (case u of
                  Failed \<Rightarrow> Inr ([], c, 1)
                | Succeeded d \<Rightarrow>
                    Inr (d, c(k \<mapsto> \<lparr>entry_timestamp = t_store, entry_data = d\<rparr>), 1))))"

text \<open>
  Two calls for the same address, one after the other, each with its own clock readings
  and upstream reply: both results, the cache at the end and the GET requests of both.
\<close>

definition get_transactions_twice ::
  "int \<Rightarrow> cache \<Rightarrow> rat \<times> rat \<times> upstream \<Rightarrow> rat \<times> rat \<times> upstream \<Rightarrow> json
     \<Rightarrow> py_error + (tx_record list \<times> tx_record list \<times> cache \<times> nat)" where
  "get_transactions_twice ttl c first second address =
     (case (first, second) of
        ((t1, t1', u1), (t2, t2', u2)) \<Rightarrow>
          (case get_transactions ttl c t1 t1' u1 address of
             Inl e \<Rightarrow> Inl e
           | Inr (d1, c1, n1) \<Rightarrow>
               (case get_transactions ttl c1 t2 t2' u2 address of
                  Inl e \<Rightarrow> Inl e
                | Inr (d2, c2, n2) \<Rightarrow> Inr (d1, d2, c2, n1 + n2))))"

section \<open>Feature extraction\<close>

text \<open>
  \<^verbatim>\<open>t.get("toUserAccount") == address\<close>: the field is a string or \<^verbatim>\<open>None\<close>, the address
  any JSON value.
\<close>

definition acct_eq :: "string option \<Rightarrow> json \<Rightarrow> bool" where
  "acct_eq v address = (case v of None \<Rightarrow> address = JNull | Some s \<Rightarrow> address = JStr s)"

text \<open>The inner loop over the native transfers of one record; the state is (incoming, outgoing).\<close>

fun count_transfers :: "json \<Rightarrow> transfer list \<Rightarrow> nat \<times> nat \<Rightarrow> nat \<times> nat" where
  "count_transfers address [] (inc, out) = (inc, out)"
| "count_transfers address (t # ts) (inc, out) =
     (if acct_eq (toUserAccount t) address then count_transfers address ts (inc + 1, out)
      else if acct_eq (fromUserAccount t) address then count_transfers address ts (inc, out + 1)
      else count_transfers address ts (inc, out))"

text \<open>\<^verbatim>\<open>if ts and (last_tx_timestamp is None or ts > last_tx_timestamp)\<close>.\<close>

definition update_last :: "rat option \<Rightarrow> rat option \<Rightarrow> rat option" where
  "update_last ts last_ts =
     (case ts of
        None \<Rightarrow> last_ts
      | Some q \<Rightarrow>
          if q \<noteq> 0 \<and> (case last_ts of None \<Rightarrow> True | Some l \<Rightarrow> q > l) then Some q else last_ts)"

text \<open>\<^verbatim>\<open>tx.get("nativeTransfers", [])\<close>.\<close>

definition native_transfers_of :: "tx_record \<Rightarrow> transfer list" where
  "native_transfers_of tx = (case nativeTransfers tx of None \<Rightarrow> [] | Some ts \<Rightarrow> ts)"

text \<open>The outer loop over the records; the state is (incoming, outgoing, last_tx_timestamp).\<close>

fun scan_records ::
  "json \<Rightarrow> tx_record list \<Rightarrow> nat \<times> nat \<times> rat option \<Rightarrow> nat \<times> nat \<times> rat option" where
  "scan_records address [] st = st"
| "scan_records address (tx # txs) (inc, out, last_ts) =
     (case count_transfers address (native_transfers_of tx) (inc, out) of
        (inc', out') \<Rightarrow> scan_records address txs (inc', out', update_last (timestamp tx) last_ts))"

text \<open>\<open>now\<close> is the value of \<^verbatim>\<open>time.time()\<close> read on line 109.\<close>

definition extract_features_from_helius :: "rat \<Rightarrow> tx_record list \<Rightarrow> json \<Rightarrow> features" where
  "extract_features_from_helius now data address =
     (case scan_records address data (0, 0, None) of
        (inc, out, last_ts) \<Rightarrow>
          \<lparr>tx_count = length data,
           incoming_tx_count = inc,
           outgoing_tx_count = out,
           incoming_ratio = (if length data > 0 then of_nat inc / of_nat (length data) else 0),
           recent_activity_days =
             (case last_ts of
                None \<Rightarrow> None
              | Some l \<Rightarrow> if l \<noteq> 0 then Some ((now - l) / 86400) else None)\<rparr>)"

text \<open>
  The timestamps that pass the test \<^verbatim>\<open>if ts\<close>: present and not zero, in the order of
  the records.
\<close>

definition truthy_timestamps :: "tx_record list \<Rightarrow> rat list" where
  "truthy_timestamps data =
     concat (map (\<lambda>tx. case timestamp tx of None \<Rightarrow> [] | Some q \<Rightarrow> if q \<noteq> 0 then [q] else []) data)"

section \<open>The endpoints\<close>

subsection \<open>Python floats\<close>

text \<open>Rounding to the nearest integer, a tie to the even one.\<close>

definition round_half_even :: "rat \<Rightarrow> int" where
  "round_half_even y =
     (let f = \<lfloor>y\<rfloor>; d = y - of_int f
      in if d < 1 / 2 then f else if 1 / 2 < d then f + 1 else if even f then f else f + 1)"

text \<open>
  The binary exponent \<open>e\<close> of a nonzero \<open>x\<close>: \<open>2 ^ e \<le> \<bar>x\<bar> < 2 ^ (e + 1)\<close>. For
  \<open>\<bar>x\<bar> = p / q\<close> it is the difference of the bit lengths of \<open>p\<close> and \<open>q\<close>, or one
  less.
\<close>

definition binary_exponent :: "rat \<Rightarrow> int" where
  "binary_exponent x =
     (case quotient_of \<bar>x\<bar> of
        (p, q) \<Rightarrow> let d = bitlen p - bitlen q in if 2 powi d \<le> \<bar>x\<bar> then d else d - 1)"

text \<open>
  \<open>binary64 x\<close> is the Python float nearest to \<open>x\<close>: 53 significant bits, a tie to the
  even significand. It is what a float literal denotes and what \<^verbatim>\<open>+\<close>, \<^verbatim>\<open>*\<close> and
  \<^verbatim>\<open>/\<close> return for the exact result \<open>x\<close>. The exponent is not bounded here; the
  magnitudes of the handler are far from the overflow and underflow of the format.
\<close>

definition binary64 :: "rat \<Rightarrow> rat" where
  "binary64 x =
     (if x = 0 then 0
      else let u = 2 powi (binary_exponent x - 52) in of_int (round_half_even (x / u)) * u)"

text \<open>
  \<^verbatim>\<open>round(x, 2)\<close> on a float: CPython rounds the exact binary value of \<open>x\<close> to two
  decimals, a tie to the even digit, and returns the float nearest to that decimal
  \<open>k / 100\<close>, which the JSON response prints as \<open>k / 100\<close>.
\<close>

definition py_round2 :: "rat \<Rightarrow> rat" where
  "py_round2 x = of_int (round_half_even (x * 100)) / 100"

subsection \<open>The handlers\<close>

text \<open>
  Steps 3 and 4 of \<^verbatim>\<open>score\<close>. Line 146, \<^verbatim>\<open>min(1.0, 0.1 + 0.8 * features["incoming_ratio"])\<close>:
  the ratio read from the features is the float of the quotient, the literals, the
  product and the sum are floats. Line 147 compares the score with the float literals
  \<^verbatim>\<open>0.65\<close> and \<^verbatim>\<open>0.35\<close>. Line 151 rounds the score.
\<close>

definition risk_score :: "features \<Rightarrow> rat" where
  "risk_score f =
     min 1 (binary64 (binary64 (1 / 10) + binary64 (binary64 (8 / 10) * binary64 (incoming_ratio f))))"

definition risk_label :: "rat \<Rightarrow> string" where
  "risk_label s =
     (if s > binary64 (65 / 100) then ''high''
      else if s > binary64 (35 / 100) then ''medium'' else ''low'')"

definition score_response :: "features \<Rightarrow> response" where
  "score_response f = ScoreResp (py_round2 (risk_score f)) (risk_label (risk_score f)) f"

definition missing_address :: string where
  "missing_address = ''Missing 'address' field in request.''"

definition fetch_failed :: string where
  "fetch_failed = ''Failed to fetch transaction data from Helius.''"

text \<open>
  \<open>score ttl c t_check t_store now u body\<close>: the handler of \<^verbatim>\<open>POST /score\<close>. An
  exception that leaves the handler is \<open>Inl\<close>. The cache after the request and the number
  of GET requests are returned with the response.
\<close>

definition score ::
  "int \<Rightarrow> cache \<Rightarrow> rat \<Rightarrow> rat \<Rightarrow> rat \<Rightarrow> upstream \<Rightarrow> (string \<times> json) list
     \<Rightarrow> (py_error + response) \<times> cache \<times> nat" where
  "score ttl c t_check t_store now u body =
     (let address = dict_get body ''address'' in
      if \<not> truthy address then (Inr (ErrorResp missing_address), c, 0)
      else
        (case get_transactions ttl c t_check t_store u address of
           Inl e \<Rightarrow> (Inl e, c, 0)
         | Inr (tx_data, c', n) \<Rightarrow>
             if tx_data = [] then (Inr (ErrorResp fetch_failed), c', n)
             else (Inr (score_response (extract_features_from_helius now tx_data address)), c', n)))"

text \<open>The em dash of the message is its three UTF-8 bytes.\<close>

definition missing_tx :: string where
  "missing_tx = ''Missing 'tx' field '' @ [CHR 0xE2, CHR 0x80, CHR 0x94] @ '' expected base64-encoded transaction''"

text \<open>
  \<open>simulate connect decode rpc body\<close>: the handler of \<^verbatim>\<open>POST /simulate\<close>. The three
  calls inside the \<^verbatim>\<open>try\<close> are inputs, in the order the handler makes them:
  \<open>connect\<close> is the opening of \<^verbatim>\<open>AsyncClient(HELIUS_RPC)\<close>, \<open>decode\<close> is
  \<^verbatim>\<open>base64.b64decode\<close>, \<open>rpc\<close> is \<^verbatim>\<open>client.simulate_transaction\<close> with the closing of
  the client. An exception with \<^verbatim>\<open>str(e) = msg\<close> is \<open>Some msg\<close> for \<open>connect\<close> and
  \<open>Inl msg\<close> for the other two; \<^verbatim>\<open>except Exception\<close> catches each. The RPC answers
  \<^verbatim>\<open>resp.value\<close>: nothing, or logs, units consumed and error.
\<close>

definition simulate ::
  "string option \<Rightarrow> (json \<Rightarrow> string + nat list)
     \<Rightarrow> (nat list \<Rightarrow> string + (string list \<times> nat option \<times> string option) option)
     \<Rightarrow> (string \<times> json) list \<Rightarrow> py_error + response" where
  "simulate connect decode rpc body =
     (let encoded_tx = dict_get body ''tx'' in
      if \<not> truthy encoded_tx then Inr (ErrorResp missing_tx)
      else
        (case connect of
           Some msg \<Rightarrow> Inr (ErrorResp msg)
         | None \<Rightarrow>
             (case decode encoded_tx of
                Inl msg \<Rightarrow> Inr (ErrorResp msg)
              | Inr tx_bytes \<Rightarrow>
                  (case rpc tx_bytes of
                     Inl msg \<Rightarrow> Inr (ErrorResp msg)
                   | Inr None \<Rightarrow> Inr (SimResp [] None None)
                   | Inr (Some (logs, units, err)) \<Rightarrow> Inr (SimResp logs units err)))))"

text \<open>FastAPI answers 200 when the handler returns and 500 when an exception leaves it.\<close>

definition http_status :: "py_error + response \<Rightarrow> nat" where
  "http_status r = (case r of Inl e \<Rightarrow> 500 | Inr v \<Rightarrow> 200)"

section \<open>The loops of the extractor in closed form\<close>

lemma count_transfers_eq:
  "count_transfers a ts (i, j) =
     (i + length (filter (\<lambda>t. acct_eq (toUserAccount t) a) ts),
      j + length (filter (\<lambda>t. \<not> acct_eq (toUserAccount t) a \<and> acct_eq (fromUserAccount t) a) ts))"
  by (induction ts arbitrary: i j) auto

lemma scan_records_eq:
  "scan_records a data (i, j, l) =
     (i + length (filter (\<lambda>t. acct_eq (toUserAccount t) a) (concat (map native_transfers_of data))),
      j + length (filter (\<lambda>t. \<not> acct_eq (toUserAccount t) a \<and> acct_eq (fromUserAccount t) a)
                    (concat (map native_transfers_of data))),
      foldl (\<lambda>l tx. update_last (timestamp tx) l) l data)"
  by (induction data arbitrary: i j l) (auto simp: count_transfers_eq)

lemma truthy_timestamps_Nil: "truthy_timestamps [] = []"
  by (simp add: truthy_timestamps_def)

lemma truthy_timestamps_Cons:
  "truthy_timestamps (tx # txs) =
     (case timestamp tx of None \<Rightarrow> [] | Some q \<Rightarrow> if q \<noteq> 0 then [q] else []) @ truthy_timestamps txs"
  by (simp add: truthy_timestamps_def)

lemma max_Max_insert_below:
  fixes q :: rat
  assumes "finite S" "l0 < q"
  shows "max l0 (Max (insert q S)) = Max (insert q S)"
proof -
  have "q \<le> Max (insert q S)" using assms(1) by simp
  then show ?thesis using assms(2) by simp
qed

lemma max_Max_insert_above:
  fixes q :: rat
  assumes "finite S" "q \<le> l0"
  shows "max l0 (Max (insert q S)) = Max (insert l0 S)"
proof -
  have "max l0 (Max (insert q S)) = Max (insert l0 (insert q S))"
    using assms(1) by simp
  also have "\<dots> = Max (insert q (insert l0 S))"
    by (simp only: insert_commute)
  also have "\<dots> = max q (Max (insert l0 S))"
    using assms(1) by simp
  also have "\<dots> = Max (insert l0 S)"
  proof -
    have "l0 \<le> Max (insert l0 S)" using assms(1) by simp
    then show ?thesis using assms(2) by simp
  qed
  finally show ?thesis .
qed

lemma update_last_None: "update_last None l = l"
  by (simp add: update_last_def)

lemma update_last_zero: "update_last (Some 0) l = l"
  by (simp add: update_last_def)

lemma update_last_first: "q \<noteq> 0 \<Longrightarrow> update_last (Some q) None = Some q"
  by (simp add: update_last_def)

lemma update_last_next:
  "q \<noteq> 0 \<Longrightarrow> update_last (Some q) (Some l0) = (if l0 < q then Some q else Some l0)"
  by (simp add: update_last_def)

lemma foldl_update_last:
  "foldl (\<lambda>l tx. update_last (timestamp tx) l) l data =
     (case l of
        None \<Rightarrow> if truthy_timestamps data = [] then None else Some (Max (set (truthy_timestamps data)))
      | Some l0 \<Rightarrow> Some (Max (insert l0 (set (truthy_timestamps data)))))"
proof (induction data arbitrary: l)
  case Nil
  show ?case by (simp add: truthy_timestamps_Nil split: option.splits)
next
  case (Cons tx txs)
  show ?case
  proof (cases "timestamp tx")
    case None
    then show ?thesis
      by (simp add: Cons.IH update_last_None truthy_timestamps_Cons split: option.splits)
  next
    case (Some q)
    show ?thesis
    proof (cases "q = 0")
      case True
      with Some show ?thesis
        by (simp add: Cons.IH update_last_zero truthy_timestamps_Cons split: option.splits)
    next
      case False
      show ?thesis
      proof (cases l)
        case None
        with Some False show ?thesis
          by (simp add: Cons.IH update_last_first truthy_timestamps_Cons)
      next
        case (Some l0)
        with \<open>timestamp tx = Some q\<close> False show ?thesis
          by (simp add: Cons.IH update_last_next truthy_timestamps_Cons
                max_Max_insert_below max_Max_insert_above not_less)
      qed
    qed
  qed
qed

lemma extract_fields:
  "tx_count (extract_features_from_helius now data a) = length data"
  "incoming_tx_count (extract_features_from_helius now data a) =
     length (filter (\<lambda>t. acct_eq (toUserAccount t) a) (concat (map native_transfers_of data)))"
  "outgoing_tx_count (extract_features_from_helius now data a) =
     length (filter (\<lambda>t. \<not> acct_eq (toUserAccount t) a \<and> acct_eq (fromUserAccount t) a)
               (concat (map native_transfers_of data)))"
  "incoming_ratio (extract_features_from_helius now data a) =
     (if length data > 0
      then of_nat (length (filter (\<lambda>t. acct_eq (toUserAccount t) a) (concat (map native_transfers_of data))))
             / of_nat (length data)
      else 0)"
  by (simp_all add: extract_features_from_helius_def scan_records_eq)

lemma truthy_timestamps_nonzero: "0 \<notin> set (truthy_timestamps data)"
  by (induction data) (auto simp: truthy_timestamps_Nil truthy_timestamps_Cons split: option.splits)

lemma extract_recent:
  "recent_activity_days (extract_features_from_helius now data a) =
     (if truthy_timestamps data = [] then None
      else Some ((now - Max (set (truthy_timestamps data))) / 86400))"
proof -
  have "Max (set (truthy_timestamps data)) \<noteq> 0" if "truthy_timestamps data \<noteq> []"
  proof -
    have "Max (set (truthy_timestamps data)) \<in> set (truthy_timestamps data)"
      using that by (intro Max_in) auto
    then show ?thesis using truthy_timestamps_nonzero [of data] by metis
  qed
  then show ?thesis
    by (simp add: extract_features_from_helius_def scan_records_eq foldl_update_last)
qed

lemma count_le_length:
  "(\<forall>tx \<in> set data. length (filter P (f tx)) \<le> 1) \<Longrightarrow>
     length (filter P (concat (map f data))) \<le> length data"
proof (induction data)
  case Nil
  show ?case by simp
next
  case (Cons tx txs)
  then have "length (filter P (f tx)) \<le> 1" and "length (filter P (concat (map f txs))) \<le> length txs"
    by simp_all
  then show ?case by simp
qed

section \<open>The incoming ratio\<close>

text \<open>
  The extractor counts native-transfer entries and divides by the number of records. A
  record with two entries that name the address as receiver gives a ratio of 2.
\<close>

theorem incoming_ratio_counterexample:
  "incoming_ratio (extract_features_from_helius 0
      [\<lparr>nativeTransfers = Some [\<lparr>fromUserAccount = Some ''X'', toUserAccount = Some ''A''\<rparr>,
                                \<lparr>fromUserAccount = Some ''Y'', toUserAccount = Some ''A''\<rparr>],
        timestamp = None\<rparr>] (JStr ''A'')) = 2
   \<and> \<not> (2 :: rat) \<le> 1"
  by (simp add: extract_fields native_transfers_of_def acct_eq_def)

text \<open>
  C1 (as amended): for every list of records and every address, \<open>incoming_ratio\<close> is
  defined, is not negative and equals \<open>incoming / tx_count\<close> (0 when there is no
  record); it lies in [0,1] whenever no record contains more than one native-transfer
  entry whose receiver is the address.
\<close>

theorem incoming_ratio_bounds:
  "0 \<le> incoming_ratio (extract_features_from_helius now data a)
   \<and> incoming_ratio (extract_features_from_helius now data a) =
       (if tx_count (extract_features_from_helius now data a) > 0
        then of_nat (incoming_tx_count (extract_features_from_helius now data a))
               / of_nat (tx_count (extract_features_from_helius now data a))
        else 0)
   \<and> ((\<forall>tx \<in> set data.
          length (filter (\<lambda>t. acct_eq (toUserAccount t) a) (native_transfers_of tx)) \<le> 1)
        \<longrightarrow> incoming_ratio (extract_features_from_helius now data a) \<le> 1)"
proof (intro conjI impI)
  show "0 \<le> incoming_ratio (extract_features_from_helius now data a)"
    by (simp add: extract_fields)
  show "incoming_ratio (extract_features_from_helius now data a) =
       (if tx_count (extract_features_from_helius now data a) > 0
        then of_nat (incoming_tx_count (extract_features_from_helius now data a))
               / of_nat (tx_count (extract_features_from_helius now data a))
        else 0)"
    by (simp add: extract_fields)
  assume "\<forall>tx \<in> set data.
          length (filter (\<lambda>t. acct_eq (toUserAccount t) a) (native_transfers_of tx)) \<le> 1"
  then have "length (filter (\<lambda>t. acct_eq (toUserAccount t) a) (concat (map native_transfers_of data)))
               \<le> length data"
    by (rule count_le_length)
  then show "incoming_ratio (extract_features_from_helius now data a) \<le> 1"
    by (simp add: extract_fields divide_le_eq_1)
qed

text \<open>The bound at two records, the first with one incoming and one outgoing entry.\<close>

theorem incoming_ratio_bounds_witness:
  "incoming_ratio (extract_features_from_helius 0
      [\<lparr>nativeTransfers = Some [\<lparr>fromUserAccount = Some ''X'', toUserAccount = Some ''A''\<rparr>,
                                \<lparr>fromUserAccount = Some ''A'', toUserAccount = Some ''Y''\<rparr>],
        timestamp = None\<rparr>,
       \<lparr>nativeTransfers = None, timestamp = Some 5\<rparr>] (JStr ''A'')) \<le> 1"
  using incoming_ratio_bounds [of 0
      "[\<lparr>nativeTransfers = Some [\<lparr>fromUserAccount = Some ''X'', toUserAccount = Some ''A''\<rparr>,
                                \<lparr>fromUserAccount = Some ''A'', toUserAccount = Some ''Y''\<rparr>],
        timestamp = None\<rparr>,
       \<lparr>nativeTransfers = None, timestamp = Some 5\<rparr>]" "JStr ''A''"]
  by (simp add: native_transfers_of_def acct_eq_def)

section \<open>Counting transfers\<close>

lemma set_truthy_timestamps:
  "set (truthy_timestamps data) = {q. q \<noteq> 0 \<and> (\<exists>tx \<in> set data. timestamp tx = Some q)}"
  by (induction data)
     (auto simp: truthy_timestamps_Nil truthy_timestamps_Cons split: option.splits if_splits)

lemma py_round2_half: "py_round2 (1 / 2) = 1 / 2"
  by (simp add: py_round2_def round_half_even_def)

lemma risk_score_half: "risk_score \<lparr>tx_count = 2, incoming_tx_count = 1, outgoing_tx_count = 1,
    incoming_ratio = 1 / 2, recent_activity_days = None\<rparr> = 1 / 2"
  by code_simp

lemma risk_label_half: "risk_label (1 / 2) = ''medium''"
  by code_simp

text \<open>
  C5: for every record list and address, \<open>incoming\<close> is the number of native-transfer
  entries whose receiver equals the address, and \<open>outgoing\<close> the number of entries
  whose sender equals the address and whose receiver does not (the receiver test comes
  first and the branches exclude each other). For the two records
  \<open>{nativeTransfers: [{from: X, to: A}]}\<close>, \<open>{nativeTransfers: [{from: A, to: Y}]}\<close> and
  address \<open>A\<close> the extractor yields incoming 1, outgoing 1, tx_count 2 and ratio 1/2, and
  \<^verbatim>\<open>POST /score\<close> answers score 0.5 with label "medium".
\<close>

theorem extractor_counts:
  "incoming_tx_count (extract_features_from_helius now data a) =
     length (filter (\<lambda>t. acct_eq (toUserAccount t) a) (concat (map native_transfers_of data)))
   \<and> outgoing_tx_count (extract_features_from_helius now data a) =
     length (filter (\<lambda>t. \<not> acct_eq (toUserAccount t) a \<and> acct_eq (fromUserAccount t) a)
               (concat (map native_transfers_of data)))
   \<and> extract_features_from_helius now
        [\<lparr>nativeTransfers = Some [\<lparr>fromUserAccount = Some ''X'', toUserAccount = Some ''A''\<rparr>],
          timestamp = None\<rparr>,
         \<lparr>nativeTransfers = Some [\<lparr>fromUserAccount = Some ''A'', toUserAccount = Some ''Y''\<rparr>],
          timestamp = None\<rparr>] (JStr ''A'')
       = \<lparr>tx_count = 2, incoming_tx_count = 1, outgoing_tx_count = 1, incoming_ratio = 1 / 2,
          recent_activity_days = None\<rparr>
   \<and> fst (score ttl Map.empty t_check t_store now
        (Succeeded
          [\<lparr>nativeTransfers = Some [\<lparr>fromUserAccount = Some ''X'', toUserAccount = Some ''A''\<rparr>],
            timestamp = None\<rparr>,
           \<lparr>nativeTransfers = Some [\<lparr>fromUserAccount = Some ''A'', toUserAccount = Some ''Y''\<rparr>],
            timestamp = None\<rparr>])
        [(''address'', JStr ''A'')])
       = Inr (ScoreResp (1 / 2) ''medium''
           \<lparr>tx_count = 2, incoming_tx_count = 1, outgoing_tx_count = 1, incoming_ratio = 1 / 2,
            recent_activity_days = None\<rparr>)"
proof (intro conjI)
  let ?d = "[\<lparr>nativeTransfers = Some [\<lparr>fromUserAccount = Some ''X'', toUserAccount = Some ''A''\<rparr>],
          timestamp = None\<rparr>,
         \<lparr>nativeTransfers = Some [\<lparr>fromUserAccount = Some ''A'', toUserAccount = Some ''Y''\<rparr>],
          timestamp = None\<rparr>]"
  let ?f = "\<lparr>tx_count = 2, incoming_tx_count = 1, outgoing_tx_count = 1, incoming_ratio = 1 / 2,
          recent_activity_days = None\<rparr>"
  show "incoming_tx_count (extract_features_from_helius now data a) =
     length (filter (\<lambda>t. acct_eq (toUserAccount t) a) (concat (map native_transfers_of data)))"
    by (rule extract_fields)
  show "outgoing_tx_count (extract_features_from_helius now data a) =
     length (filter (\<lambda>t. \<not> acct_eq (toUserAccount t) a \<and> acct_eq (fromUserAccount t) a)
               (concat (map native_transfers_of data)))"
    by (rule extract_fields)
  show ex: "extract_features_from_helius now ?d (JStr ''A'') = ?f"
    by (simp add: extract_features_from_helius_def native_transfers_of_def acct_eq_def
          update_last_def)
  have "get_transactions ttl Map.empty t_check t_store (Succeeded ?d) (JStr ''A'')
          = Inr (?d, [KStr ''A'' \<mapsto> \<lparr>entry_timestamp = t_store, entry_data = ?d\<rparr>], 1)"
    by (simp add: get_transactions_def cache_lookup_def)
  moreover have "score_response ?f = ScoreResp (1 / 2) ''medium'' ?f"
    by (simp only: score_response_def risk_score_half risk_label_half py_round2_half)
  ultimately show "fst (score ttl Map.empty t_check t_store now (Succeeded ?d) [(''address'', JStr ''A'')])
      = Inr (ScoreResp (1 / 2) ''medium'' ?f)"
    by (simp add: score_def dict_get_def ex)
qed

section \<open>Recency\<close>

text \<open>
  The test \<^verbatim>\<open>if ts\<close> skips a timestamp equal to 0 as it skips an absent one: a single
  record with timestamp 0 yields no \<open>recent_activity_days\<close>.
\<close>

theorem recent_days_zero_timestamp_counterexample:
  "timestamp \<lparr>nativeTransfers = None, timestamp = Some 0\<rparr> = Some 0
   \<and> recent_activity_days (extract_features_from_helius 86400
        [\<lparr>nativeTransfers = None, timestamp = Some 0\<rparr>] (JStr ''A'')) = None
   \<and> recent_activity_days (extract_features_from_helius 86400
        [\<lparr>nativeTransfers = None, timestamp = Some 0\<rparr>] (JStr ''A'')) \<noteq> Some ((86400 - 0) / 86400)"
  by (simp add: extract_recent truthy_timestamps_def)

text \<open>
  C6 (as amended): for every record list, \<open>recent_activity_days\<close> equals
  \<open>(now - m) / 86400\<close>, with \<open>m\<close> the greatest nonzero timestamp, whenever at least one
  record carries a nonzero timestamp, and is absent exactly when no record carries a
  nonzero timestamp (a timestamp equal to 0 counts as absent); for \<open>tx_count = 0\<close> the
  FeatureSet has \<open>incoming_ratio = 0\<close> and \<open>recent_activity_days\<close> absent.
\<close>

theorem recent_activity_days_eq:
  "recent_activity_days (extract_features_from_helius now data a) =
     (if truthy_timestamps data = [] then None
      else Some ((now - Max (set (truthy_timestamps data))) / 86400))
   \<and> (recent_activity_days (extract_features_from_helius now data a) = None
        \<longleftrightarrow> \<not> (\<exists>tx \<in> set data. \<exists>q. timestamp tx = Some q \<and> q \<noteq> 0))
   \<and> (tx_count (extract_features_from_helius now data a) = 0
        \<longrightarrow> incoming_ratio (extract_features_from_helius now data a) = 0
            \<and> recent_activity_days (extract_features_from_helius now data a) = None)"
proof (intro conjI impI)
  show r: "recent_activity_days (extract_features_from_helius now data a) =
     (if truthy_timestamps data = [] then None
      else Some ((now - Max (set (truthy_timestamps data))) / 86400))"
    by (rule extract_recent)
  have "truthy_timestamps data = [] \<longleftrightarrow> set (truthy_timestamps data) = {}"
    by simp
  also have "\<dots> \<longleftrightarrow> \<not> (\<exists>tx \<in> set data. \<exists>q. timestamp tx = Some q \<and> q \<noteq> 0)"
    unfolding set_truthy_timestamps by auto
  finally show "recent_activity_days (extract_features_from_helius now data a) = None
        \<longleftrightarrow> \<not> (\<exists>tx \<in> set data. \<exists>q. timestamp tx = Some q \<and> q \<noteq> 0)"
    by (simp add: r)
next
  assume "tx_count (extract_features_from_helius now data a) = 0"
  then have d: "data = []" by (simp add: extract_fields)
  show "incoming_ratio (extract_features_from_helius now data a) = 0"
    by (simp add: d extract_fields)
  show "recent_activity_days (extract_features_from_helius now data a) = None"
    by (simp add: d extract_recent truthy_timestamps_Nil)
qed

text \<open>No record; and three records with timestamps 43200, 0 and none, read at 86400.\<close>

theorem recent_activity_days_eq_witness:
  "tx_count (extract_features_from_helius 86400 [] (JStr ''A'')) = 0
   \<and> incoming_ratio (extract_features_from_helius 86400 [] (JStr ''A'')) = 0
   \<and> recent_activity_days (extract_features_from_helius 86400 [] (JStr ''A'')) = None
   \<and> recent_activity_days (extract_features_from_helius 86400
        [\<lparr>nativeTransfers = None, timestamp = Some 43200\<rparr>,
         \<lparr>nativeTransfers = None, timestamp = Some 0\<rparr>,
         \<lparr>nativeTransfers = None, timestamp = None\<rparr>] (JStr ''A'')) = Some (1 / 2)"
  using recent_activity_days_eq [of 86400 "[]" "JStr ''A''"]
    recent_activity_days_eq [of 86400 "[\<lparr>nativeTransfers = None, timestamp = Some 43200\<rparr>,
         \<lparr>nativeTransfers = None, timestamp = Some 0\<rparr>,
         \<lparr>nativeTransfers = None, timestamp = None\<rparr>]" "JStr ''A''"]
  by (simp add: extract_fields truthy_timestamps_def)

section \<open>Dependence on the clock\<close>

text \<open>
  The extractor reads \<^verbatim>\<open>time.time()\<close>: the same record list and address give different
  FeatureSets at different times.
\<close>

theorem extractor_clock_counterexample:
  "recent_activity_days (extract_features_from_helius 86400
      [\<lparr>nativeTransfers = None, timestamp = Some 43200\<rparr>] (JStr ''A'')) = Some (1 / 2)
   \<and> recent_activity_days (extract_features_from_helius 172800
      [\<lparr>nativeTransfers = None, timestamp = Some 43200\<rparr>] (JStr ''A'')) = Some (3 / 2)
   \<and> extract_features_from_helius 86400
        [\<lparr>nativeTransfers = None, timestamp = Some 43200\<rparr>] (JStr ''A'')
      \<noteq> extract_features_from_helius 172800
        [\<lparr>nativeTransfers = None, timestamp = Some 43200\<rparr>] (JStr ''A'')"
  by (simp add: extract_features_from_helius_def update_last_def native_transfers_of_def)

text \<open>
  C9 (as amended): the extractor is a function of the records, the address and the clock
  reading, with no other input. Two invocations on the same records and address agree on
  every field but \<open>recent_activity_days\<close>, which is absent in both or present in both;
  they return identical FeatureSets when they read the same clock value or when no record
  carries a nonzero timestamp.
\<close>

theorem extractor_deterministic_up_to_clock:
  "extract_features_from_helius now1 data a =
     (extract_features_from_helius now2 data a)
       \<lparr>recent_activity_days := recent_activity_days (extract_features_from_helius now1 data a)\<rparr>
   \<and> (recent_activity_days (extract_features_from_helius now1 data a) = None
        \<longleftrightarrow> recent_activity_days (extract_features_from_helius now2 data a) = None)
   \<and> (now1 = now2 \<or> truthy_timestamps data = []
        \<longrightarrow> extract_features_from_helius now1 data a = extract_features_from_helius now2 data a)"
proof (intro conjI impI)
  show "extract_features_from_helius now1 data a =
     (extract_features_from_helius now2 data a)
       \<lparr>recent_activity_days := recent_activity_days (extract_features_from_helius now1 data a)\<rparr>"
    by (simp add: extract_features_from_helius_def scan_records_eq)
  show "recent_activity_days (extract_features_from_helius now1 data a) = None
        \<longleftrightarrow> recent_activity_days (extract_features_from_helius now2 data a) = None"
    by (simp add: extract_recent)
  assume "now1 = now2 \<or> truthy_timestamps data = []"
  then show "extract_features_from_helius now1 data a = extract_features_from_helius now2 data a"
  proof
    assume "now1 = now2"
    then show ?thesis by simp
  next
    assume "truthy_timestamps data = []"
    then show ?thesis
      by (simp add: extract_features_from_helius_def scan_records_eq foldl_update_last)
  qed
qed

text \<open>One record with timestamp 0, read at two different times.\<close>

theorem extractor_deterministic_up_to_clock_witness:
  "truthy_timestamps [\<lparr>nativeTransfers = None, timestamp = Some 0\<rparr>] = []
   \<and> extract_features_from_helius 86400 [\<lparr>nativeTransfers = None, timestamp = Some 0\<rparr>] (JStr ''A'')
     = extract_features_from_helius 172800 [\<lparr>nativeTransfers = None, timestamp = Some 0\<rparr>] (JStr ''A'')"
  using extractor_deterministic_up_to_clock
    [of 86400 "[\<lparr>nativeTransfers = None, timestamp = Some 0\<rparr>]" "JStr ''A''" 172800]
  by (simp add: truthy_timestamps_def)

section \<open>The risk score\<close>

lemma round_half_even_near: "\<bar>of_int (round_half_even y) - y\<bar> \<le> 1 / 2"
proof -
  define d where "d = y - of_int \<lfloor>y\<rfloor>"
  have d: "0 \<le> d" "d < 1" unfolding d_def by linarith+
  have y: "y = of_int \<lfloor>y\<rfloor> + d" unfolding d_def by simp
  have r: "round_half_even y =
      (if d < 1 / 2 then \<lfloor>y\<rfloor> else if 1 / 2 < d then \<lfloor>y\<rfloor> + 1
       else if even \<lfloor>y\<rfloor> then \<lfloor>y\<rfloor> else \<lfloor>y\<rfloor> + 1)"
    unfolding round_half_even_def Let_def d_def by simp
  show ?thesis
    unfolding r using d by (subst (2) y) (auto simp: abs_if)
qed

lemma round_half_even_nonneg: "0 \<le> y \<Longrightarrow> 0 \<le> round_half_even y"
  by (auto simp: round_half_even_def Let_def)

lemma py_round2_grid: "\<exists>k::int. py_round2 x = of_int k / 100"
  by (simp add: py_round2_def)

lemma py_round2_near: "\<bar>py_round2 x - x\<bar> \<le> 1 / 200"
proof -
  have "\<bar>py_round2 x - x\<bar> = \<bar>of_int (round_half_even (x * 100)) - x * 100\<bar> / 100"
    by (simp add: py_round2_def abs_if field_simps)
  also have "\<dots> \<le> (1 / 2) / 100"
    by (intro divide_right_mono round_half_even_near) simp
  finally show ?thesis by simp
qed

lemma binary64_nonneg: "0 \<le> x \<Longrightarrow> 0 \<le> binary64 x"
  by (auto simp: binary64_def Let_def intro!: mult_nonneg_nonneg round_half_even_nonneg)

lemma risk_score_bounds: "0 \<le> incoming_ratio f \<Longrightarrow> 0 \<le> risk_score f \<and> risk_score f \<le> 1"
  by (simp add: risk_score_def binary64_nonneg add_nonneg_nonneg mult_nonneg_nonneg)

lemma risk_label_cases:
  "(risk_label s = ''high'' \<longleftrightarrow> binary64 (65 / 100) < s)
   \<and> (risk_label s = ''medium'' \<longleftrightarrow> binary64 (35 / 100) < s \<and> s \<le> binary64 (65 / 100))
   \<and> (risk_label s = ''low'' \<longleftrightarrow> s \<le> binary64 (35 / 100))"
proof -
  have "binary64 (35 / 100) < binary64 (65 / 100)" by code_simp
  then show ?thesis by (auto simp: risk_label_def)
qed

text \<open>
  A float operation is exact up to a relative error of \<open>2 ^ -53\<close>, so the float score
  is the exact value of the formula up to \<open>10 ^ -15\<close>.
\<close>

lemma two_powi_pos: "0 < (2::rat) powi k"
  by (simp add: zero_less_power_int)

lemma binary_exponent_le:
  assumes "x \<noteq> 0"
  shows "2 powi binary_exponent x \<le> \<bar>x\<bar>"
proof -
  obtain p q where pq: "quotient_of \<bar>x\<bar> = (p, q)" by (cases "quotient_of \<bar>x\<bar>")
  then have q: "0 < q" and x: "\<bar>x\<bar> = of_int p / of_int q"
    by (simp_all add: quotient_of_denom_pos quotient_of_div)
  from assms have "0 < \<bar>x\<bar>" by simp
  with x q have p: "0 < p" by (simp add: zero_less_divide_iff)
  let ?d = "bitlen p - bitlen q"
  show ?thesis
  proof (cases "(2::rat) powi ?d \<le> \<bar>x\<bar>")
    case True
    then show ?thesis by (simp add: binary_exponent_def pq Let_def)
  next
    case False
    then have e: "binary_exponent x = ?d - 1" by (simp add: binary_exponent_def pq Let_def)
    have bp: "1 \<le> bitlen p" using p by (simp add: bitlen_alt_def)
    have bq: "0 \<le> bitlen q" by (rule bitlen_nonneg)
    have "(2::int) ^ nat (bitlen p - 1) \<le> p" using bitlen_bounds [OF p] by simp
    then have "(of_int ((2::int) ^ nat (bitlen p - 1)) :: rat) \<le> of_int p" by (simp only: of_int_le_iff)
    then have lo: "(2::rat) powi (bitlen p - 1) \<le> of_int p"
      using bp by (simp add: power_int_def)
    have "q < 2 ^ nat (bitlen q)" using bitlen_bounds [OF q] by simp
    then have "(of_int q :: rat) < of_int ((2::int) ^ nat (bitlen q))" by (simp only: of_int_less_iff)
    then have hi: "of_int q < (2::rat) powi bitlen q"
      using bq by (simp add: power_int_def)
    have "(2::rat) powi (?d - 1) = 2 powi (bitlen p - 1) / 2 powi bitlen q"
      by (simp add: power_int_diff)
    also have "\<dots> \<le> of_int p / 2 powi bitlen q"
      using lo two_powi_pos [of "bitlen q"] by (simp add: divide_right_mono)
    also have "\<dots> \<le> of_int p / of_int q"
      using hi q p by (intro divide_left_mono) (simp_all add: mult_pos_pos two_powi_pos)
    finally show ?thesis by (simp add: e x)
  qed
qed

lemma binary_exponent_less:
  assumes "x \<noteq> 0"
  shows "\<bar>x\<bar> < 2 powi (binary_exponent x + 1)"
proof -
  obtain p q where pq: "quotient_of \<bar>x\<bar> = (p, q)" by (cases "quotient_of \<bar>x\<bar>")
  then have q: "0 < q" and x: "\<bar>x\<bar> = of_int p / of_int q"
    by (simp_all add: quotient_of_denom_pos quotient_of_div)
  from assms have "0 < \<bar>x\<bar>" by simp
  with x q have p: "0 < p" by (simp add: zero_less_divide_iff)
  let ?d = "bitlen p - bitlen q"
  show ?thesis
  proof (cases "(2::rat) powi ?d \<le> \<bar>x\<bar>")
    case False
    then show ?thesis by (simp add: binary_exponent_def pq Let_def)
  next
    case True
    then have e: "binary_exponent x = ?d" by (simp add: binary_exponent_def pq Let_def)
    have bp: "0 \<le> bitlen p" by (rule bitlen_nonneg)
    have bq: "1 \<le> bitlen q" using q by (simp add: bitlen_alt_def)
    have "p < 2 ^ nat (bitlen p)" using bitlen_bounds [OF p] by simp
    then have "(of_int p :: rat) < of_int ((2::int) ^ nat (bitlen p))" by (simp only: of_int_less_iff)
    then have hi: "of_int p < (2::rat) powi bitlen p"
      using bp by (simp add: power_int_def)
    have "(2::int) ^ nat (bitlen q - 1) \<le> q" using bitlen_bounds [OF q] by simp
    then have "(of_int ((2::int) ^ nat (bitlen q - 1)) :: rat) \<le> of_int q" by (simp only: of_int_le_iff)
    then have lo: "(2::rat) powi (bitlen q - 1) \<le> of_int q"
      using bq by (simp add: power_int_def)
    have "of_int p / of_int q < 2 powi bitlen p / (of_int q :: rat)"
      using hi q by (simp add: divide_strict_right_mono)
    also have "\<dots> \<le> 2 powi bitlen p / 2 powi (bitlen q - 1)"
      using lo q by (intro divide_left_mono) (simp_all add: two_powi_pos mult_pos_pos less_imp_le)
    also have "\<dots> = 2 powi (?d + 1)"
      by (simp add: power_int_diff power_int_add)
    finally show ?thesis by (simp add: e x)
  qed
qed

lemma binary64_error: "\<bar>binary64 x - x\<bar> \<le> \<bar>x\<bar> / 2 ^ 53"
proof (cases "x = 0")
  case True
  then show ?thesis by (simp add: binary64_def)
next
  case False
  define u :: rat where "u = 2 powi (binary_exponent x - 52)"
  have u: "0 < u" unfolding u_def by (rule two_powi_pos)
  have b: "binary64 x = of_int (round_half_even (x / u)) * u"
    using False by (simp add: binary64_def u_def Let_def)
  have "binary64 x - x = (of_int (round_half_even (x / u)) - x / u) * u"
    using u by (simp add: b field_simps)
  then have "\<bar>binary64 x - x\<bar> = \<bar>of_int (round_half_even (x / u)) - x / u\<bar> * u"
    using u by (simp add: abs_mult)
  also have "\<dots> \<le> (1 / 2) * u"
    using u by (intro mult_right_mono round_half_even_near) simp
  also have "(1 / 2) * u = 2 powi binary_exponent x / 2 ^ 53"
    unfolding u_def by (simp add: power_int_diff)
  also have "\<dots> \<le> \<bar>x\<bar> / 2 ^ 53"
    using binary_exponent_le [OF False] by (simp add: divide_right_mono)
  finally show ?thesis .
qed

lemma risk_score_accuracy:
  assumes "0 \<le> incoming_ratio f" and "incoming_ratio f \<le> 1"
  shows "\<bar>risk_score f - min 1 (1 / 10 + 8 / 10 * incoming_ratio f)\<bar> \<le> 1 / 10 ^ 15"
proof -
  define r where "r = incoming_ratio f"
  define eps :: rat where "eps = 1 / 2 ^ 53"
  define r1 where "r1 = binary64 r"
  define c8 where "c8 = binary64 (8 / 10)"
  define c1 where "c1 = binary64 (1 / 10)"
  define p where "p = binary64 (c8 * r1)"
  define s1 where "s1 = binary64 (c1 + p)"
  have r: "0 \<le> r" "r \<le> 1" using assms by (simp_all add: r_def)
  have eps: "0 < eps" "eps \<le> 1 / 100" by (simp_all add: eps_def)
  have err: "\<bar>binary64 x - x\<bar> \<le> \<bar>x\<bar> * eps" for x
    using binary64_error [of x] by (simp add: eps_def)
  have r1_err: "\<bar>r1 - r\<bar> \<le> eps"
  proof -
    have "\<bar>r1 - r\<bar> \<le> \<bar>r\<bar> * eps" unfolding r1_def by (rule err)
    also have "\<dots> \<le> 1 * eps" using r eps by (intro mult_right_mono) simp_all
    finally show ?thesis by simp
  qed
  have r1: "0 \<le> r1" "r1 \<le> 1 + eps"
    using r1_err r binary64_nonneg [of r] by (simp_all add: r1_def abs_le_iff)
  have c8_err: "\<bar>c8 - 8 / 10\<bar> \<le> eps"
  proof -
    have "\<bar>c8 - 8 / 10\<bar> \<le> \<bar>8 / 10\<bar> * eps" unfolding c8_def by (rule err)
    also have "\<dots> \<le> 1 * eps" using eps by (intro mult_right_mono) simp_all
    finally show ?thesis by simp
  qed
  have c8: "0 \<le> c8" "c8 \<le> 8 / 10 + eps"
    using c8_err binary64_nonneg [of "8 / 10"] by (simp_all add: c8_def abs_le_iff)
  have c1_err: "\<bar>c1 - 1 / 10\<bar> \<le> eps"
  proof -
    have "\<bar>c1 - 1 / 10\<bar> \<le> \<bar>1 / 10\<bar> * eps" unfolding c1_def by (rule err)
    also have "\<dots> \<le> 1 * eps" using eps by (intro mult_right_mono) simp_all
    finally show ?thesis by simp
  qed
  have c1: "0 \<le> c1" using binary64_nonneg [of "1 / 10"] by (simp add: c1_def)
  have p0: "0 \<le> c8 * r1" "c8 * r1 \<le> 9 / 10"
  proof -
    show "0 \<le> c8 * r1" using c8 r1 by simp
    have "c8 * r1 \<le> (8 / 10 + eps) * (1 + eps)"
      using c8 r1 by (intro mult_mono) simp_all
    also have "\<dots> \<le> (8 / 10 + 1 / 100) * (1 + 1 / 100)"
      using eps by (intro mult_mono) simp_all
    also have "\<dots> \<le> 9 / 10" by simp
    finally show "c8 * r1 \<le> 9 / 10" .
  qed
  have p0_err: "\<bar>c8 * r1 - 8 / 10 * r\<bar> \<le> 2 * eps"
  proof -
    have "c8 * r1 - 8 / 10 * r = c8 * (r1 - r) + (c8 - 8 / 10) * r"
      by (simp add: algebra_simps)
    then have "\<bar>c8 * r1 - 8 / 10 * r\<bar> \<le> \<bar>c8 * (r1 - r)\<bar> + \<bar>(c8 - 8 / 10) * r\<bar>"
      by (simp only: abs_triangle_ineq)
    also have "\<bar>c8 * (r1 - r)\<bar> \<le> 1 * eps"
      unfolding abs_mult using c8 eps r1_err by (intro mult_mono) simp_all
    also have "\<bar>(c8 - 8 / 10) * r\<bar> \<le> eps * 1"
      unfolding abs_mult using r c8_err by (intro mult_mono) simp_all
    finally show ?thesis by simp
  qed
  have p_err: "\<bar>p - c8 * r1\<bar> \<le> eps"
  proof -
    have "\<bar>p - c8 * r1\<bar> \<le> \<bar>c8 * r1\<bar> * eps" unfolding p_def by (rule err)
    also have "\<dots> \<le> 1 * eps" using p0 eps by (intro mult_right_mono) simp_all
    finally show ?thesis by simp
  qed
  have p: "0 \<le> p" unfolding p_def using p0 by (intro binary64_nonneg)
  have s0_err: "\<bar>c1 + p - (1 / 10 + 8 / 10 * r)\<bar> \<le> 4 * eps"
    using c1_err p_err p0_err by (simp add: abs_le_iff)
  have s0: "0 \<le> c1 + p" "c1 + p \<le> 1"
  proof -
    show "0 \<le> c1 + p" using c1 p by simp
    have "c1 + p \<le> 1 / 10 + 8 / 10 * r + 4 * eps" using s0_err by (simp add: abs_le_iff)
    also have "\<dots> \<le> 1 / 10 + 8 / 10 * 1 + 4 * (1 / 100)" using r eps by simp
    finally show "c1 + p \<le> 1" by simp
  qed
  have s1_err: "\<bar>s1 - (c1 + p)\<bar> \<le> eps"
  proof -
    have "\<bar>s1 - (c1 + p)\<bar> \<le> \<bar>c1 + p\<bar> * eps" unfolding s1_def by (rule err)
    also have "\<dots> \<le> 1 * eps" using s0 eps by (intro mult_right_mono) simp_all
    finally show ?thesis by simp
  qed
  have total: "\<bar>s1 - (1 / 10 + 8 / 10 * r)\<bar> \<le> 5 * eps"
    using s1_err s0_err by (simp add: abs_le_iff)
  have "s1 \<le> 1 / 10 + 8 / 10 * r + 5 * eps" using total by (simp add: abs_le_iff)
  also have "\<dots> \<le> 1 / 10 + 8 / 10 * 1 + 5 * (1 / 100)" using r eps by simp
  finally have "s1 \<le> 1" by simp
  moreover have "1 / 10 + 8 / 10 * r \<le> 1" using r by simp
  moreover have "risk_score f = min 1 s1"
    by (simp add: risk_score_def s1_def p_def c1_def c8_def r1_def r_def)
  moreover have "5 * eps \<le> 1 / 10 ^ 15" by (simp add: eps_def)
  ultimately show ?thesis using total by (simp add: r_def min_def)
qed

text \<open>
  The rounding follows the binary value of the score. At the ratios 5/32 and 15/32 the
  exact values 0.225 and 0.475 lie halfway between two decimals, the floats lie just
  above and just below, and the responses carry 0.23 and 0.47. At the ratio 11/16 the
  float score is the literal \<^verbatim>\<open>0.65\<close> itself, which is not greater than it: "medium".
\<close>

lemma py_round2_binary_value:
  "py_round2 (risk_score \<lparr>tx_count = 32, incoming_tx_count = 5, outgoing_tx_count = 0,
      incoming_ratio = 5 / 32, recent_activity_days = None\<rparr>) = 23 / 100
   \<and> py_round2 (risk_score \<lparr>tx_count = 32, incoming_tx_count = 15, outgoing_tx_count = 0,
      incoming_ratio = 15 / 32, recent_activity_days = None\<rparr>) = 47 / 100"
  by code_simp

lemma risk_label_at_threshold:
  "risk_score \<lparr>tx_count = 16, incoming_tx_count = 11, outgoing_tx_count = 0,
      incoming_ratio = 11 / 16, recent_activity_days = None\<rparr> = binary64 (65 / 100)
   \<and> risk_label (binary64 (65 / 100)) = ''medium''"
  by code_simp

lemma score_at_tie:
  "fst (score 300 Map.empty 0 1 2
      (Succeeded (replicate 5 \<lparr>nativeTransfers = Some [\<lparr>fromUserAccount = Some ''X'', toUserAccount = Some ''A''\<rparr>],
                               timestamp = None\<rparr>
                  @ replicate 27 \<lparr>nativeTransfers = None, timestamp = None\<rparr>))
      [(''address'', JStr ''A'')])
   = Inr (ScoreResp (23 / 100) ''low''
       \<lparr>tx_count = 32, incoming_tx_count = 5, outgoing_tx_count = 0, incoming_ratio = 5 / 32,
        recent_activity_days = None\<rparr>)"
  by code_simp

lemma score_unfold:
  assumes "truthy (dict_get body ''address'')"
    and "get_transactions ttl c t_check t_store u (dict_get body ''address'') = Inr (tx_data, c', n)"
    and "tx_data \<noteq> []"
  shows "score ttl c t_check t_store now u body =
    (Inr (score_response (extract_features_from_helius now tx_data (dict_get body ''address''))), c', n)"
  using assms by (simp add: score_def)

text \<open>
  C2: for every FeatureSet with \<open>incoming_ratio\<close> r in [0,1] that the handler of
  \<^verbatim>\<open>/score\<close> computes, the response is built from \<open>score = min(1.0, 0.1 + 0.8 r)\<close>,
  evaluated in float arithmetic and within \<open>10 ^ -15\<close> of the exact value; the label is
  "high" iff \<open>score > 0.65\<close>, "medium" iff \<open>0.35 < score \<le> 0.65\<close> and "low" iff
  \<open>score \<le> 0.35\<close>, with the float literals \<^verbatim>\<open>0.65\<close> and \<^verbatim>\<open>0.35\<close>; the score in the
  response is the score rounded to 2 decimal places: a multiple of 1/100 at distance at
  most 1/200 from the score.
\<close>

theorem score_formula_and_label:
  assumes "truthy (dict_get body ''address'')"
    and "get_transactions ttl c t_check t_store u (dict_get body ''address'') = Inr (tx_data, c', n)"
    and "tx_data \<noteq> []"
    and "f = extract_features_from_helius now tx_data (dict_get body ''address'')"
    and "0 \<le> incoming_ratio f" and "incoming_ratio f \<le> 1"
  shows "\<exists>s. fst (score ttl c t_check t_store now u body) = Inr (ScoreResp (py_round2 s) (risk_label s) f)
    \<and> s = min 1 (binary64 (binary64 (1 / 10) + binary64 (binary64 (8 / 10) * binary64 (incoming_ratio f))))
    \<and> \<bar>s - min 1 (1 / 10 + 8 / 10 * incoming_ratio f)\<bar> \<le> 1 / 10 ^ 15
    \<and> 0 \<le> s \<and> s \<le> 1
    \<and> (risk_label s = ''high'' \<longleftrightarrow> binary64 (65 / 100) < s)
    \<and> (risk_label s = ''medium'' \<longleftrightarrow> binary64 (35 / 100) < s \<and> s \<le> binary64 (65 / 100))
    \<and> (risk_label s = ''low'' \<longleftrightarrow> s \<le> binary64 (35 / 100))
    \<and> (\<exists>k::int. py_round2 s = of_int k / 100)
    \<and> \<bar>py_round2 s - s\<bar> \<le> 1 / 200"
proof -
  have h: "fst (score ttl c t_check t_store now u body)
      = Inr (ScoreResp (py_round2 (risk_score f)) (risk_label (risk_score f)) f)"
    using score_unfold [OF assms(1-3)] by (simp add: assms(4) score_response_def)
  have d: "risk_score f
      = min 1 (binary64 (binary64 (1 / 10) + binary64 (binary64 (8 / 10) * binary64 (incoming_ratio f))))"
    by (simp only: risk_score_def)
  from h d risk_score_accuracy [OF assms(5,6)] risk_score_bounds [OF assms(5)]
    risk_label_cases [of "risk_score f"] py_round2_grid [of "risk_score f"]
    py_round2_near [of "risk_score f"]
  show ?thesis by blast
qed

text \<open>
  Four records for address \<open>A\<close>, three with a transfer to \<open>A\<close> and one with a transfer
  from \<open>A\<close>: ratio 3/4, float score 0.7000000000000001, response 0.7 and "high".
\<close>

theorem score_formula_and_label_witness:
  "fst (score 300 Map.empty 0 1 2
      (Succeeded
        [\<lparr>nativeTransfers = Some [\<lparr>fromUserAccount = Some ''X'', toUserAccount = Some ''A''\<rparr>],
          timestamp = None\<rparr>,
         \<lparr>nativeTransfers = Some [\<lparr>fromUserAccount = Some ''Y'', toUserAccount = Some ''A''\<rparr>],
          timestamp = None\<rparr>,
         \<lparr>nativeTransfers = Some [\<lparr>fromUserAccount = Some ''A'', toUserAccount = Some ''Z''\<rparr>],
          timestamp = None\<rparr>,
         \<lparr>nativeTransfers = Some [\<lparr>fromUserAccount = Some ''Z'', toUserAccount = Some ''A''\<rparr>],
          timestamp = None\<rparr>])
      [(''address'', JStr ''A'')])
   = Inr (ScoreResp (7 / 10) ''high''
       \<lparr>tx_count = 4, incoming_tx_count = 3, outgoing_tx_count = 1, incoming_ratio = 3 / 4,
        recent_activity_days = None\<rparr>)"
proof -
  let ?d = "[\<lparr>nativeTransfers = Some [\<lparr>fromUserAccount = Some ''X'', toUserAccount = Some ''A''\<rparr>],
          timestamp = None\<rparr>,
         \<lparr>nativeTransfers = Some [\<lparr>fromUserAccount = Some ''Y'', toUserAccount = Some ''A''\<rparr>],
          timestamp = None\<rparr>,
         \<lparr>nativeTransfers = Some [\<lparr>fromUserAccount = Some ''A'', toUserAccount = Some ''Z''\<rparr>],
          timestamp = None\<rparr>,
         \<lparr>nativeTransfers = Some [\<lparr>fromUserAccount = Some ''Z'', toUserAccount = Some ''A''\<rparr>],
          timestamp = None\<rparr>]"
  let ?f = "\<lparr>tx_count = 4, incoming_tx_count = 3, outgoing_tx_count = 1, incoming_ratio = 3 / 4,
        recent_activity_days = None\<rparr>"
  let ?body = "[(''address'', JStr ''A'')]"
  have a: "dict_get ?body ''address'' = JStr ''A''" by (simp add: dict_get_def)
  have t: "truthy (dict_get ?body ''address'')" by (simp add: a)
  have g: "get_transactions 300 Map.empty 0 1 (Succeeded ?d) (dict_get ?body ''address'')
      = Inr (?d, [KStr ''A'' \<mapsto> \<lparr>entry_timestamp = 1, entry_data = ?d\<rparr>], 1)"
    by (simp add: a get_transactions_def cache_lookup_def)
  have ne: "?d \<noteq> []" by simp
  have f: "?f = extract_features_from_helius 2 ?d (dict_get ?body ''address'')"
    by (simp add: a extract_features_from_helius_def native_transfers_of_def acct_eq_def
          update_last_def)
  have r: "0 \<le> incoming_ratio ?f" "incoming_ratio ?f \<le> 1" by simp_all
  have v: "py_round2 (min 1 (binary64 (binary64 (1 / 10) + binary64 (binary64 (8 / 10) * binary64 (3 / 4)))))
        = 7 / 10
      \<and> risk_label (min 1 (binary64 (binary64 (1 / 10) + binary64 (binary64 (8 / 10) * binary64 (3 / 4)))))
        = ''high''"
    by code_simp
  from score_formula_and_label [OF t g ne f r] obtain s where
    "fst (score 300 Map.empty 0 1 2 (Succeeded ?d) ?body) = Inr (ScoreResp (py_round2 s) (risk_label s) ?f)"
    and "s = min 1 (binary64 (binary64 (1 / 10) + binary64 (binary64 (8 / 10) * binary64 (incoming_ratio ?f))))"
    by blast
  with v show ?thesis by simp
qed

section \<open>The cache and the upstream fetch\<close>

lemma get_transactions_hit:
  "py_hash address = Inr k \<Longrightarrow> cache_lookup ttl c t_check k = Some d \<Longrightarrow>
     get_transactions ttl c t_check t_store u address = Inr (d, c, 0)"
  by (simp add: get_transactions_def)

lemma get_transactions_miss_failed:
  "py_hash address = Inr k \<Longrightarrow> cache_lookup ttl c t_check k = None \<Longrightarrow>
     get_transactions ttl c t_check t_store Failed address = Inr ([], c, 1)"
  by (simp add: get_transactions_def)

lemma get_transactions_miss_succeeded:
  "py_hash address = Inr k \<Longrightarrow> cache_lookup ttl c t_check k = None \<Longrightarrow>
     get_transactions ttl c t_check t_store (Succeeded d) address =
       Inr (d, c(k \<mapsto> \<lparr>entry_timestamp = t_store, entry_data = d\<rparr>), 1)"
  by (simp add: get_transactions_def)

lemma cache_lookup_stored:
  "t - t_store < of_int ttl \<Longrightarrow>
     cache_lookup ttl (c(k \<mapsto> \<lparr>entry_timestamp = t_store, entry_data = d\<rparr>)) t k = Some d"
  by (simp add: cache_lookup_def)

lemma get_transactions_unhashable:
  "py_hash address = Inl e \<Longrightarrow> get_transactions ttl c t_check t_store u address = Inl e"
  by (simp add: get_transactions_def)

text \<open>
  C4: for every address, when the cache does not answer and the GET is issued: if it
  suffers a transport error, a non-2xx status or a malformed body, \<open>get_transactions\<close>
  returns the empty sequence and leaves the cache unchanged; if it succeeds, the parsed
  array is returned unchanged and written into the cache under the address with the
  current timestamp, also when the array is empty.
\<close>

theorem fetch_outcomes:
  assumes "py_hash address = Inr k" and "cache_lookup ttl c t_check k = None"
  shows "get_transactions ttl c t_check t_store Failed address = Inr ([], c, 1)
    \<and> get_transactions ttl c t_check t_store (Succeeded d) address =
        Inr (d, c(k \<mapsto> \<lparr>entry_timestamp = t_store, entry_data = d\<rparr>), 1)
    \<and> get_transactions ttl c t_check t_store (Succeeded []) address =
        Inr ([], c(k \<mapsto> \<lparr>entry_timestamp = t_store, entry_data = []\<rparr>), 1)"
  using assms
  by (simp add: get_transactions_miss_failed get_transactions_miss_succeeded)

text \<open>An empty cache, address \<open>A\<close>: a failed GET and a GET that returns the empty array.\<close>

theorem fetch_outcomes_witness:
  "py_hash (JStr ''A'') = Inr (KStr ''A'')
   \<and> cache_lookup 300 Map.empty 1000 (KStr ''A'') = None
   \<and> get_transactions 300 Map.empty 1000 1001 Failed (JStr ''A'') = Inr ([], Map.empty, 1)
   \<and> get_transactions 300 Map.empty 1000 1001 (Succeeded []) (JStr ''A'') =
        Inr ([], [KStr ''A'' \<mapsto> \<lparr>entry_timestamp = 1001, entry_data = []\<rparr>], 1)"
proof -
  have h: "py_hash (JStr ''A'') = Inr (KStr ''A'')" by simp
  have m: "cache_lookup 300 Map.empty 1000 (KStr ''A'') = None" by (simp add: cache_lookup_def)
  from fetch_outcomes [OF h m, of 1001 "[]"] h m show ?thesis by simp
qed

text \<open>
  C7: for every address whose cache entry is at least TTL old, the cache read is a miss
  and the fetch issues one upstream GET; the stale entry is not deleted: no key leaves
  the cache, every other key keeps its entry, a successful refetch overwrites the entry
  and a failed refetch leaves it unchanged.
\<close>

theorem stale_entry_refetched:
  assumes "py_hash address = Inr k" and "c k = Some e"
    and "of_int ttl \<le> t_check - entry_timestamp e"
  shows "cache_lookup ttl c t_check k = None
    \<and> get_transactions ttl c t_check t_store Failed address = Inr ([], c, 1)
    \<and> get_transactions ttl c t_check t_store (Succeeded d) address =
        Inr (d, c(k \<mapsto> \<lparr>entry_timestamp = t_store, entry_data = d\<rparr>), 1)
    \<and> (\<exists>d' c' n. get_transactions ttl c t_check t_store u address = Inr (d', c', n)
          \<and> n = 1 \<and> dom c' = dom c \<and> (u = Failed \<longrightarrow> c' = c \<and> c' k = Some e)
          \<and> (\<forall>k'. k' \<noteq> k \<longrightarrow> c' k' = c k'))"
proof -
  have miss: "cache_lookup ttl c t_check k = None"
    using assms(2,3) by (simp add: cache_lookup_def)
  have f: "get_transactions ttl c t_check t_store Failed address = Inr ([], c, 1)"
    using assms(1) miss by (rule get_transactions_miss_failed)
  have s: "get_transactions ttl c t_check t_store (Succeeded d') address =
        Inr (d', c(k \<mapsto> \<lparr>entry_timestamp = t_store, entry_data = d'\<rparr>), 1)" for d'
    using assms(1) miss by (rule get_transactions_miss_succeeded)
  have "\<exists>d' c' n. get_transactions ttl c t_check t_store u address = Inr (d', c', n)
          \<and> n = 1 \<and> dom c' = dom c \<and> (u = Failed \<longrightarrow> c' = c \<and> c' k = Some e)
          \<and> (\<forall>k'. k' \<noteq> k \<longrightarrow> c' k' = c k')"
  proof (cases u)
    case Failed
    then show ?thesis using f assms(2) by simp
  next
    case (Succeeded ds)
    then show ?thesis using s [of ds] assms(2) by auto
  qed
  with miss f s show ?thesis by blast
qed

text \<open>An entry stored at time 0, read at time 301 with a TTL of 300; the refetch fails.\<close>

theorem stale_entry_refetched_witness:
  "get_transactions 300 [KStr ''A'' \<mapsto> \<lparr>entry_timestamp = 0, entry_data = []\<rparr>] 301 302 Failed (JStr ''A'')
     = Inr ([], [KStr ''A'' \<mapsto> \<lparr>entry_timestamp = 0, entry_data = []\<rparr>], 1)
   \<and> cache_lookup 300 [KStr ''A'' \<mapsto> \<lparr>entry_timestamp = 0, entry_data = []\<rparr>] 301 (KStr ''A'') = None"
  using stale_entry_refetched [of "JStr ''A''" "KStr ''A''"
      "[KStr ''A'' \<mapsto> \<lparr>entry_timestamp = 0, entry_data = []\<rparr>]"
      "\<lparr>entry_timestamp = 0, entry_data = []\<rparr>" 300 301 302 "[]" Failed]
  by simp

section \<open>Two fetches within the TTL\<close>

lemma get_transactions_at_most_one:
  assumes "py_hash address = Inr k"
  shows "\<exists>d c' n. get_transactions ttl c t_check t_store u address = Inr (d, c', n) \<and> n \<le> 1"
proof (cases "cache_lookup ttl c t_check k")
  case None
  show ?thesis
  proof (cases u)
    case Failed
    then show ?thesis using assms None by (simp add: get_transactions_miss_failed)
  next
    case (Succeeded ds)
    then show ?thesis using assms None by (simp add: get_transactions_miss_succeeded)
  qed
next
  case (Some d)
  then show ?thesis using assms by (simp add: get_transactions_hit)
qed

text \<open>
  A failed fetch stores nothing: two fetches for \<open>A\<close> one second apart, the first of
  which fails, issue two GET requests.
\<close>

theorem two_fetches_after_failure_counterexample:
  "(1 :: rat) - 0 < of_int 300
   \<and> get_transactions_twice 300 Map.empty (0, 0, Failed) (1, 1, Failed) (JStr ''A'')
       = Inr ([], [], Map.empty, 2)
   \<and> \<not> (2 :: nat) \<le> 1"
  by (simp add: get_transactions_twice_def get_transactions_def cache_lookup_def)

text \<open>
  C3 (as amended): for every address, when the first of two fetches within TTL seconds
  does not fail (it is answered by the cache, or its GET succeeds), the two fetches issue
  at most one upstream GET; when the first fetch issued a GET that succeeded, the second
  is served from the cache: it returns the same data, issues no GET and leaves the cache
  as the first fetch wrote it.
\<close>

theorem two_fetches_within_ttl:
  assumes "get_transactions_twice ttl c (t1, t1', u1) (t2, t2', u2) address = Inr (d1, d2, c2, n)"
    and "py_hash address = Inr k"
    and "t1 \<le> t1'" and "t2 - t1 < of_int ttl"
    and "cache_lookup ttl c t1 k \<noteq> None \<or> u1 \<noteq> Failed"
  shows "n \<le> 1
    \<and> (cache_lookup ttl c t1 k = None \<longrightarrow>
          n = 1 \<and> d2 = d1 \<and> u1 = Succeeded d1
          \<and> c2 = c(k \<mapsto> \<lparr>entry_timestamp = t1', entry_data = d1\<rparr>))"
proof (cases "cache_lookup ttl c t1 k")
  case (Some d)
  then have first: "get_transactions ttl c t1 t1' u1 address = Inr (d, c, 0)"
    using assms(2) by (simp add: get_transactions_hit)
  obtain d' c' n' where second: "get_transactions ttl c t2 t2' u2 address = Inr (d', c', n')"
    and "n' \<le> 1"
    using get_transactions_at_most_one [OF assms(2)] by blast
  with first assms(1) have "n \<le> 1"
    by (simp add: get_transactions_twice_def)
  with Some show ?thesis by simp
next
  case None
  with assms(5) obtain ds where u1: "u1 = Succeeded ds" by (cases u1) auto
  let ?c1 = "c(k \<mapsto> \<lparr>entry_timestamp = t1', entry_data = ds\<rparr>)"
  have first: "get_transactions ttl c t1 t1' u1 address = Inr (ds, ?c1, 1)"
    unfolding u1 using assms(2) None by (rule get_transactions_miss_succeeded)
  have "t2 - t1' < of_int ttl" using assms(3,4) by linarith
  then have "cache_lookup ttl ?c1 t2 k = Some ds" by (rule cache_lookup_stored)
  with assms(2) have second: "get_transactions ttl ?c1 t2 t2' u2 address = Inr (ds, ?c1, 0)"
    by (rule get_transactions_hit)
  from assms(1) first second have "d1 = ds \<and> d2 = ds \<and> c2 = ?c1 \<and> n = 1"
    by (auto simp: get_transactions_twice_def)
  with u1 show ?thesis by simp
qed

text \<open>
  An empty cache and a TTL of 300: the first fetch starts at 0 and stores the empty array
  at 2, the second starts at 200 and would fail upstream, but never asks.
\<close>

theorem two_fetches_within_ttl_witness:
  "get_transactions_twice 300 Map.empty (0, 2, Succeeded []) (200, 201, Failed) (JStr ''A'')
     = Inr ([], [], [KStr ''A'' \<mapsto> \<lparr>entry_timestamp = 2, entry_data = []\<rparr>], 1)"
proof -
  have r: "get_transactions_twice 300 Map.empty (0, 2, Succeeded []) (200, 201, Failed) (JStr ''A'')
     = Inr ([], [], [KStr ''A'' \<mapsto> \<lparr>entry_timestamp = 2, entry_data = []\<rparr>], 1)"
    by (simp add: get_transactions_twice_def get_transactions_def cache_lookup_def)
  have h: "py_hash (JStr ''A'') = Inr (KStr ''A'')" by simp
  have m: "cache_lookup 300 Map.empty 0 (KStr ''A'') \<noteq> None \<or> Succeeded [] \<noteq> Failed" by simp
  have "(1::nat) \<le> 1
    \<and> (cache_lookup 300 Map.empty 0 (KStr ''A'') = None \<longrightarrow>
          (1::nat) = 1 \<and> ([]::tx_record list) = [] \<and> Succeeded [] = Succeeded []
          \<and> [KStr ''A'' \<mapsto> \<lparr>entry_timestamp = 2, entry_data = []\<rparr>]
             = Map.empty(KStr ''A'' \<mapsto> \<lparr>entry_timestamp = 2, entry_data = []\<rparr>))"
    by (rule two_fetches_within_ttl [OF r h _ _ m]) simp_all
  with r show ?thesis by simp
qed

section \<open>Failures at the endpoints\<close>

text \<open>
  The branches that answer with an error object: a missing field at either endpoint, an
  empty fetch at \<^verbatim>\<open>/score\<close>, and every exception of the decoder or the RPC at
  \<^verbatim>\<open>/simulate\<close>, whose handler never lets an exception out.
\<close>

lemma score_missing_address:
  "\<not> truthy (dict_get body ''address'') \<Longrightarrow>
     score ttl c t_check t_store now u body = (Inr (ErrorResp missing_address), c, 0)"
  by (simp add: score_def)

lemma simulate_missing_tx:
  "\<not> truthy (dict_get body ''tx'') \<Longrightarrow> simulate connect decode rpc body = Inr (ErrorResp missing_tx)"
  by (simp add: simulate_def)

lemma simulate_never_raises: "\<exists>r. simulate connect decode rpc body = Inr r"
  by (auto simp: simulate_def Let_def split: sum.splits option.splits)

lemma score_empty_body:
  "score ttl c t_check t_store now u [] =
     (Inr (ErrorResp ''Missing 'address' field in request.''), c, 0)"
  by (simp add: score_def dict_get_def missing_address_def)

lemma score_fetch_failed:
  assumes "truthy address" and "dict_get body ''address'' = address"
    and "py_hash address = Inr k" and "cache_lookup ttl c t_check k = None"
  shows "score ttl c t_check t_store now Failed body = (Inr (ErrorResp fetch_failed), c, 1)"
  using assms by (simp add: score_def get_transactions_miss_failed)

text \<open>
  C8: the endpoints are to answer every request body with HTTP 200 and an error object on
  failure, never raising. The body \<open>{}\<close> is answered so (\<open>score_empty_body\<close>), and
  \<^verbatim>\<open>/simulate\<close> never raises (\<open>simulate_never_raises\<close>). At the body
  \<open>{"address": ["x"]}\<close>, though, the handler of \<^verbatim>\<open>/score\<close> passes the list to
  \<open>get_transactions\<close>, whose cache test \<^verbatim>\<open>address in CACHE\<close> raises \<^verbatim>\<open>TypeError\<close>
  outside every \<^verbatim>\<open>try\<close>: the exception leaves the handler, the cache is untouched, no
  GET is issued, and the HTTP status is 500, not 200.
\<close>

theorem score_unhashable_address_raises:
  "score ttl c t_check t_store now u [(''address'', JArr [JStr ''x''])] = (Inl TypeError, c, 0)
   \<and> http_status (fst (score ttl c t_check t_store now u [(''address'', JArr [JStr ''x''])])) = 500"
  by (simp add: score_def dict_get_def get_transactions_def http_status_def)

text \<open>
  C10: for every request whose required field is present but equal to the empty string
  (\<^verbatim>\<open>POST /score\<close> with \<open>address = ""\<close>, \<^verbatim>\<open>POST /simulate\<close> with \<open>tx = ""\<close>), the
  endpoint returns the missing-field error object, the same answer as for a body without
  the field: presence is tested by truthiness.
\<close>

theorem empty_string_field_is_missing:
  "(map_of body ''address'' = Some (JStr []) \<longrightarrow>
      score ttl c t_check t_store now u body = (Inr (ErrorResp missing_address), c, 0)
      \<and> score ttl c t_check t_store now u body = score ttl c t_check t_store now u [])
   \<and> (map_of body' ''tx'' = Some (JStr []) \<longrightarrow>
      simulate connect decode rpc body' = Inr (ErrorResp missing_tx)
      \<and> simulate connect decode rpc body' = simulate connect decode rpc [])"
  by (simp add: score_missing_address simulate_missing_tx dict_get_def)

text \<open>The bodies \<open>{"address": ""}\<close> and \<open>{"tx": ""}\<close>.\<close>

theorem empty_string_field_is_missing_witness:
  "map_of [(''address'', JStr [])] ''address'' = Some (JStr [])
   \<and> score 300 Map.empty 0 0 0 Failed [(''address'', JStr [])]
       = (Inr (ErrorResp ''Missing 'address' field in request.''), Map.empty, 0)
   \<and> map_of [(''tx'', JStr [])] ''tx'' = Some (JStr [])
   \<and> simulate None (\<lambda>v. Inl ''bad'') (\<lambda>b. Inl ''down'') [(''tx'', JStr [])] = Inr (ErrorResp missing_tx)"
  using empty_string_field_is_missing [of "[(''address'', JStr [])]" 300 Map.empty 0 0 0 Failed
      "[(''tx'', JStr [])]" None "\<lambda>v. Inl ''bad''" "\<lambda>b. Inl ''down''"]
  by (simp add: missing_address_def)

end
